theory Spec2Isabelle
  imports Complex_Main "HOL-Library.Multiset"
begin

section \<open>Floating-point cells\<close>

text \<open>
  Every numeric cell of the data frame is a float64. The embedding keeps the four kinds
  of value a comparison or a division can tell apart: not-a-number, the two infinities
  and the finite numbers. Finite arithmetic is exact (rounding and the sign of zero are
  not modelled); the special values follow IEEE 754 as numpy applies it: a division by
  zero raises nothing and yields an infinity or NaN, and every comparison with NaN is
  false.
\<close>

datatype pyfloat = NaN | NInf | Fin real | PInf

fun is_nan :: "pyfloat \<Rightarrow> bool" where
  "is_nan NaN = True"
| "is_nan _ = False"

fun is_fin :: "pyfloat \<Rightarrow> bool" where
  "is_fin (Fin _) = True"
| "is_fin _ = False"

fun fin_val :: "pyfloat \<Rightarrow> real" where
  "fin_val (Fin x) = x"
| "fin_val _ = 0"

fun flt :: "pyfloat \<Rightarrow> pyfloat \<Rightarrow> bool" where
  "flt NaN _ = False"
| "flt _ NaN = False"
| "flt _ NInf = False"
| "flt PInf _ = False"
| "flt NInf _ = True"
| "flt (Fin _) PInf = True"
| "flt (Fin a) (Fin b) = (a < b)"

fun fle :: "pyfloat \<Rightarrow> pyfloat \<Rightarrow> bool" where
  "fle NaN _ = False"
| "fle _ NaN = False"
| "fle NInf _ = True"
| "fle _ PInf = True"
| "fle PInf _ = False"
| "fle (Fin _) NInf = False"
| "fle (Fin a) (Fin b) = (a \<le> b)"

definition fgt :: "pyfloat \<Rightarrow> pyfloat \<Rightarrow> bool" where
  "fgt a b = flt b a"

definition fge :: "pyfloat \<Rightarrow> pyfloat \<Rightarrow> bool" where
  "fge a b = fle b a"

fun fneg :: "pyfloat \<Rightarrow> pyfloat" where
  "fneg NaN = NaN"
| "fneg NInf = PInf"
| "fneg PInf = NInf"
| "fneg (Fin a) = Fin (- a)"

fun fabs :: "pyfloat \<Rightarrow> pyfloat" where
  "fabs NaN = NaN"
| "fabs NInf = PInf"
| "fabs PInf = PInf"
| "fabs (Fin a) = Fin \<bar>a\<bar>"

fun fadd :: "pyfloat \<Rightarrow> pyfloat \<Rightarrow> pyfloat" where
  "fadd NaN _ = NaN"
| "fadd _ NaN = NaN"
| "fadd PInf NInf = NaN"
| "fadd NInf PInf = NaN"
| "fadd PInf _ = PInf"
| "fadd _ PInf = PInf"
| "fadd NInf _ = NInf"
| "fadd _ NInf = NInf"
| "fadd (Fin a) (Fin b) = Fin (a + b)"

definition fsub :: "pyfloat \<Rightarrow> pyfloat \<Rightarrow> pyfloat" where
  "fsub a b = fadd a (fneg b)"

text \<open>The sign of an infinity times or over a finite number; zero counts as positive.\<close>

definition inf_signed :: "bool \<Rightarrow> pyfloat" where
  "inf_signed positive = (if positive then PInf else NInf)"

fun fmul :: "pyfloat \<Rightarrow> pyfloat \<Rightarrow> pyfloat" where
  "fmul NaN _ = NaN"
| "fmul _ NaN = NaN"
| "fmul (Fin a) (Fin b) = Fin (a * b)"
| "fmul (Fin a) PInf = (if a = 0 then NaN else inf_signed (0 < a))"
| "fmul (Fin a) NInf = (if a = 0 then NaN else inf_signed (a < 0))"
| "fmul PInf (Fin b) = (if b = 0 then NaN else inf_signed (0 < b))"
| "fmul NInf (Fin b) = (if b = 0 then NaN else inf_signed (b < 0))"
| "fmul PInf PInf = PInf"
| "fmul NInf NInf = PInf"
| "fmul PInf NInf = NInf"
| "fmul NInf PInf = NInf"

fun fdiv :: "pyfloat \<Rightarrow> pyfloat \<Rightarrow> pyfloat" where
  "fdiv NaN _ = NaN"
| "fdiv _ NaN = NaN"
| "fdiv (Fin a) (Fin b) =
     (if b = 0 then (if a = 0 then NaN else inf_signed (0 < a)) else Fin (a / b))"
| "fdiv (Fin _) PInf = Fin 0"
| "fdiv (Fin _) NInf = Fin 0"
| "fdiv PInf (Fin b) = inf_signed (0 \<le> b)"
| "fdiv NInf (Fin b) = inf_signed (b < 0)"
| "fdiv PInf PInf = NaN"
| "fdiv PInf NInf = NaN"
| "fdiv NInf PInf = NaN"
| "fdiv NInf NInf = NaN"

section \<open>Exceptions and positional indexing\<close>

text \<open>
  The exceptions the service can end with. The two \<open>ValueError\<close>s the service raises
  itself carry the offending text; \<open>ValueError_to_datetime\<close> is the \<open>ValueError\<close> that
  \<open>pd.to_datetime\<close> raises on a date it cannot parse; \<open>KeyError\<close> is what selecting
  columns raises, with the names the frame lacks; \<open>ValueError_json\<close> is the \<open>ValueError\<close>
  of \<open>json.dumps\<close> on a cell it cannot encode; \<open>IndexError\<close> is what \<open>iloc\<close> raises out
  of bounds. An akshare call may raise an exception of any class: one of these, or
  another, for which \<open>UpstreamError\<close> stands.
\<close>

datatype py_exception =
    ValueError_invalid_code string
  | ValueError_unsupported_market string
  | ValueError_to_datetime
  | KeyError "string list"
  | ValueError_json
  | IndexError
  | UpstreamError string

text \<open>\<open>df.iloc[i]\<close>: a negative position counts from the end.\<close>

definition iloc :: "'a list \<Rightarrow> int \<Rightarrow> py_exception + 'a" where
  "iloc df i =
     (let n = int (length df);
          j = (if i < 0 then n + i else i)
      in if 0 \<le> j \<and> j < n then Inr (df ! nat j) else Inl IndexError)"

section \<open>The data frame\<close>

text \<open>
  A row of the frame \<open>get_stock_data\<close> returns (the column \<open>open\<close> is named
  \<open>open_price\<close> here), and a row of the frame after \<open>calculate_indicators\<close> has added
  its columns. Dates are datetime64 values, read as their integer count of nanoseconds.
  The frame keeps whatever further columns the upstream source gave; of them the
  service only ever reads, for its log, whether \<open>json.dumps\<close> can encode their cells:
  \<open>unencodable\<close> says that a further cell of the row is one it cannot.
\<close>

record bar =
  date :: int
  open_price :: pyfloat
  close :: pyfloat
  high :: pyfloat
  low :: pyfloat
  volume :: pyfloat
  unencodable :: bool

record irow = bar +
  MA5 :: pyfloat
  MA20 :: pyfloat
  MA60 :: pyfloat
  RSI :: pyfloat
  MACD :: pyfloat
  Signal :: pyfloat
  MACD_hist :: pyfloat
  BB_upper :: pyfloat
  BB_middle :: pyfloat
  BB_lower :: pyfloat
  Volume_MA :: pyfloat
  Volume_Ratio :: pyfloat
  ATR :: pyfloat
  Volatility :: pyfloat
  ROC :: pyfloat

section \<open>Scoring and recommendation\<close>

text \<open>
  \<open>_calculate_score\<close> (an Isabelle name cannot start with an underscore): the score
  starts at 0 and each test adds to it, in the order of the source. The score is a
  Python int.
\<close>

definition calculate_score :: "irow list \<Rightarrow> py_exception + int" where
  "calculate_score df =
     (case iloc df (- 1) of
        Inl e \<Rightarrow> Inl e
      | Inr latest \<Rightarrow>
          (let score = 0;
               score = (if fgt (MA5 latest) (MA20 latest) then score + 15 else score);
               score = (if fgt (MA20 latest) (MA60 latest) then score + 15 else score);
               score = (if fle (Fin 30) (RSI latest) \<and> fle (RSI latest) (Fin 70) then score + 20
                        else if flt (RSI latest) (Fin 30) then score + 15
                        else score);
               score = (if fgt (MACD latest) (Signal latest) then score + 20 else score);
               score = (if fgt (Volume_Ratio latest) (Fin 1.5) then score + 30
                        else if fgt (Volume_Ratio latest) (Fin 1) then score + 15
                        else score)
           in Inr score))"

text \<open>
  The rubric as the specification words it: four buckets, each a function of the latest
  row, added up.
\<close>

definition trend_points :: "irow \<Rightarrow> int" where
  "trend_points r =
     (if fgt (MA5 r) (MA20 r) then 15 else 0) + (if fgt (MA20 r) (MA60 r) then 15 else 0)"

definition rsi_points :: "irow \<Rightarrow> int" where
  "rsi_points r =
     (if is_nan (RSI r) then 0
      else if fle (Fin 30) (RSI r) \<and> fle (RSI r) (Fin 70) then 20
      else if flt (RSI r) (Fin 30) then 15
      else 0)"

definition macd_points :: "irow \<Rightarrow> int" where
  "macd_points r = (if fgt (MACD r) (Signal r) then 20 else 0)"

definition volume_points :: "irow \<Rightarrow> int" where
  "volume_points r =
     (if fgt (Volume_Ratio r) (Fin 1.5) then 30
      else if fgt (Volume_Ratio r) (Fin 1) then 15
      else 0)"

definition rubric :: "irow \<Rightarrow> int" where
  "rubric r = trend_points r + rsi_points r + macd_points r + volume_points r"

text \<open>
  The five labels of \<open>_get_recommendation\<close>, as the UTF-8 bytes of the source's string
  literals (in order: strongly recommend buying, suggest buying, wait and see, suggest
  selling, strongly suggest selling).
\<close>

definition label_strong_buy :: string where
  "label_strong_buy =
     [CHR 0xE5, CHR 0xBC, CHR 0xBA, CHR 0xE7, CHR 0x83, CHR 0x88, CHR 0xE6, CHR 0x8E, CHR 0xA8,
      CHR 0xE8, CHR 0x8D, CHR 0x90, CHR 0xE4, CHR 0xB9, CHR 0xB0, CHR 0xE5, CHR 0x85, CHR 0xA5]"

definition label_buy :: string where
  "label_buy =
     [CHR 0xE5, CHR 0xBB, CHR 0xBA, CHR 0xE8, CHR 0xAE, CHR 0xAE, CHR 0xE4, CHR 0xB9, CHR 0xB0,
      CHR 0xE5, CHR 0x85, CHR 0xA5]"

definition label_hold :: string where
  "label_hold = [CHR 0xE8, CHR 0xA7, CHR 0x82, CHR 0xE6, CHR 0x9C, CHR 0x9B]"

definition label_sell :: string where
  "label_sell =
     [CHR 0xE5, CHR 0xBB, CHR 0xBA, CHR 0xE8, CHR 0xAE, CHR 0xAE, CHR 0xE5, CHR 0x8D, CHR 0x96,
      CHR 0xE5, CHR 0x87, CHR 0xBA]"

definition label_strong_sell :: string where
  "label_strong_sell =
     [CHR 0xE5, CHR 0xBC, CHR 0xBA, CHR 0xE7, CHR 0x83, CHR 0x88, CHR 0xE5, CHR 0xBB, CHR 0xBA,
      CHR 0xE8, CHR 0xAE, CHR 0xAE, CHR 0xE5, CHR 0x8D, CHR 0x96, CHR 0xE5, CHR 0x87, CHR 0xBA]"

definition get_recommendation :: "pyfloat \<Rightarrow> string" where
  "get_recommendation score =
     (if fge score (Fin 80) then label_strong_buy
      else if fge score (Fin 60) then label_buy
      else if fge score (Fin 40) then label_hold
      else if fge score (Fin 20) then label_sell
      else label_strong_sell)"

section \<open>Series operations of the data-frame library\<close>

text \<open>
  The pandas operations the service calls, on a column read as the list of its cells
  in row order. Each follows the documented meaning of the call with the arguments the
  source passes.
\<close>

type_synonym series = "pyfloat list"

text \<open>\<open>Series.shift(n)\<close>: every cell moves down \<open>n\<close> rows, the first \<open>n\<close> are NaN.\<close>

definition series_shift :: "nat \<Rightarrow> series \<Rightarrow> series" where
  "series_shift n xs = take (length xs) (replicate n NaN @ xs)"

text \<open>\<open>Series.diff()\<close>: the cell minus the cell one row before.\<close>

definition series_diff :: "series \<Rightarrow> series" where
  "series_diff xs = map2 fsub xs (series_shift 1 xs)"

text \<open>\<open>Series.pct_change(periods=n)\<close>: the cell over the cell \<open>n\<close> rows before, minus 1.\<close>

definition pct_change :: "nat \<Rightarrow> series \<Rightarrow> series" where
  "pct_change n xs = map2 (\<lambda>x p. fsub (fdiv x p) (Fin 1)) xs (series_shift n xs)"

text \<open>
  \<open>Series.rolling(window=w)\<close>: the window of row \<open>i\<close> is the \<open>w\<close> cells ending at \<open>i\<close>.
  The library reads an infinite cell as a missing one, like NaN. With the default
  \<open>min_periods\<close> (the window size) an aggregate is NaN while the window is not full and
  whenever a cell of the window is missing.
\<close>

definition window :: "nat \<Rightarrow> nat \<Rightarrow> 'a list \<Rightarrow> 'a list" where
  "window w i xs = take w (drop (i + 1 - w) xs)"

definition fsum :: "series \<Rightarrow> pyfloat" where
  "fsum xs = foldr fadd xs (Fin 0)"

definition window_mean :: "series \<Rightarrow> pyfloat" where
  "window_mean ys =
     (if list_ex (\<lambda>y. \<not> is_fin y) ys then NaN
      else fdiv (fsum ys) (Fin (real (length ys))))"

definition rolling_mean :: "nat \<Rightarrow> series \<Rightarrow> series" where
  "rolling_mean w xs =
     map (\<lambda>i. if i + 1 < w then NaN else window_mean (window w i xs)) [0..<length xs]"

fun fsqrt :: "pyfloat \<Rightarrow> pyfloat" where
  "fsqrt (Fin a) = (if a < 0 then NaN else Fin (sqrt a))"
| "fsqrt PInf = PInf"
| "fsqrt _ = NaN"

text \<open>\<open>rolling(w).std()\<close>: the sample standard deviation (one degree of freedom less).\<close>

definition window_std :: "series \<Rightarrow> pyfloat" where
  "window_std ys =
     (if list_ex (\<lambda>y. \<not> is_fin y) ys then NaN
      else (let m = window_mean ys;
                ss = fsum (map (\<lambda>y. fmul (fsub y m) (fsub y m)) ys)
            in fsqrt (fdiv ss (Fin (real (length ys) - 1)))))"

definition rolling_std :: "nat \<Rightarrow> series \<Rightarrow> series" where
  "rolling_std w xs =
     map (\<lambda>i. if i + 1 < w then NaN else window_std (window w i xs)) [0..<length xs]"

text \<open>
  \<open>Series.ewm(span=period, adjust=False).mean()\<close>, with \<open>\<alpha> = 2 / (period + 1)\<close>. The
  library keeps the running average \<open>weighted\<close> (nothing before the first observation)
  and the weight \<open>old_wt\<close> of that average, which is 1 after an observation and shrinks
  by the factor \<open>1 - \<alpha>\<close> at every row. A missing cell (NaN or infinite) carries the
  average on; an observation \<open>c\<close> replaces the average \<open>w\<close> by
  \<open>(old_wt * w + \<alpha> * c) / (old_wt + \<alpha>)\<close>, the first observation being the average
  itself. On a column without missing cells this is \<open>(1 - \<alpha>) * w + \<alpha> * c\<close>.
\<close>

fun ewm_from :: "real \<Rightarrow> real option \<Rightarrow> real \<Rightarrow> series \<Rightarrow> series" where
  "ewm_from a weighted old_wt [] = []"
| "ewm_from a None old_wt (x # xs) =
     (case x of
        Fin c \<Rightarrow> Fin c # ewm_from a (Some c) old_wt xs
      | _ \<Rightarrow> NaN # ewm_from a None old_wt xs)"
| "ewm_from a (Some w) old_wt (x # xs) =
     (let wt = old_wt * (1 - a)
      in case x of
           Fin c \<Rightarrow> (let w' = (wt * w + a * c) / (wt + a) in Fin w' # ewm_from a (Some w') 1 xs)
         | _ \<Rightarrow> Fin w # ewm_from a (Some w) wt xs)"

definition ewm_mean :: "nat \<Rightarrow> series \<Rightarrow> series" where
  "ewm_mean period xs = ewm_from (2 / (real period + 1)) None 1 xs"

text \<open>
  The exponential moving average as the specification words it, on finite cells:
  smoothing factor \<open>2 / (period + 1)\<close>, seeded by the first value.
\<close>

fun ema_next :: "real \<Rightarrow> real \<Rightarrow> real list \<Rightarrow> real list" where
  "ema_next a w [] = []"
| "ema_next a w (c # cs) = ((1 - a) * w + a * c) # ema_next a ((1 - a) * w + a * c) cs"

definition ema_spec :: "nat \<Rightarrow> real list \<Rightarrow> real list" where
  "ema_spec period cs =
     (case cs of [] \<Rightarrow> [] | c # cs' \<Rightarrow> c # ema_next (2 / (real period + 1)) c cs')"

text \<open>\<open>DataFrame.max(axis=1)\<close> skips NaN cells; a row of NaN only gives NaN.\<close>

definition fmax :: "pyfloat \<Rightarrow> pyfloat \<Rightarrow> pyfloat" where
  "fmax a b = (if is_nan a then b else if is_nan b then a else if flt a b then b else a)"

definition row_max :: "pyfloat list \<Rightarrow> pyfloat" where
  "row_max cells = foldr fmax cells NaN"

section \<open>Technical indicators\<close>

record technical_indicator_params =
  ma_short :: nat
  ma_medium :: nat
  ma_long :: nat
  rsi_period :: nat
  bollinger_period :: nat
  bollinger_std :: int
  volume_ma_period :: nat
  atr_period :: nat

text \<open>The service holds the defaults of \<open>TechnicalIndicatorParams\<close> and nothing changes them.\<close>

definition params :: technical_indicator_params where
  "params = \<lparr>ma_short = 5, ma_medium = 20, ma_long = 60, rsi_period = 14,
     bollinger_period = 20, bollinger_std = 2, volume_ma_period = 20, atr_period = 14\<rparr>"

definition calculate_ema :: "series \<Rightarrow> nat \<Rightarrow> series" where
  "calculate_ema xs period = ewm_mean period xs"

definition calculate_rsi :: "series \<Rightarrow> nat \<Rightarrow> series" where
  "calculate_rsi xs period =
     (let delta = series_diff xs;
          gain = rolling_mean period (map (\<lambda>d. if fgt d (Fin 0) then d else Fin 0) delta);
          loss = rolling_mean period
                   (map fneg (map (\<lambda>d. if flt d (Fin 0) then d else Fin 0) delta));
          rs = map2 fdiv gain loss
      in map (\<lambda>r. fsub (Fin 100) (fdiv (Fin 100) (fadd (Fin 1) r))) rs)"

definition calculate_macd :: "series \<Rightarrow> series \<times> series \<times> series" where
  "calculate_macd xs =
     (let exp1 = ewm_mean 12 xs;
          exp2 = ewm_mean 26 xs;
          macd = map2 fsub exp1 exp2;
          signal = ewm_mean 9 macd;
          hist = map2 fsub macd signal
      in (macd, signal, hist))"

definition calculate_bollinger_bands :: "series \<Rightarrow> nat \<Rightarrow> int \<Rightarrow> series \<times> series \<times> series" where
  "calculate_bollinger_bands xs period std_dev =
     (let middle = rolling_mean period xs;
          std = rolling_std period xs;
          upper = map2 fadd middle (map (\<lambda>s. fmul s (Fin (of_int std_dev))) std);
          lower = map2 fsub middle (map (\<lambda>s. fmul s (Fin (of_int std_dev))) std)
      in (upper, middle, lower))"

definition calculate_atr :: "bar list \<Rightarrow> nat \<Rightarrow> series" where
  "calculate_atr df period =
     (let highs = map high df;
          lows = map low df;
          closes = series_shift 1 (map close df);
          tr1 = map2 fsub highs lows;
          tr2 = map fabs (map2 fsub highs closes);
          tr3 = map fabs (map2 fsub lows closes);
          tr = map (\<lambda>(a, b, c). row_max [a, b, c]) (zip tr1 (zip tr2 tr3))
      in rolling_mean period tr)"

text \<open>
  The true range as the specification words it, on finite prices: the largest of high
  minus low, the distance of the high from the previous close and the distance of the
  low from the previous close; for the first row, which has no previous close, high
  minus low.
\<close>

definition true_range :: "bar list \<Rightarrow> nat \<Rightarrow> real" where
  "true_range df t =
     (let h = fin_val (high (df ! t)); l = fin_val (low (df ! t))
      in if t = 0 then h - l
         else (let pc = fin_val (close (df ! (t - 1)))
               in max (h - l) (max \<bar>h - pc\<bar> \<bar>l - pc\<bar>)))"

text \<open>
  \<open>calculate_indicators\<close> adds one column after the other; row \<open>i\<close> of the result holds
  the \<open>i\<close>-th cell of each. On numeric columns none of the calls raises.
\<close>

definition calculate_indicators :: "bar list \<Rightarrow> irow list" where
  "calculate_indicators df =
     (let closes = map close df;
          volumes = map volume df;
          ma5 = calculate_ema closes (ma_short params);
          ma20 = calculate_ema closes (ma_medium params);
          ma60 = calculate_ema closes (ma_long params);
          rsi_col = calculate_rsi closes (rsi_period params);
          (macd, signal, hist) = calculate_macd closes;
          (bb_upper, bb_middle, bb_lower) =
             calculate_bollinger_bands closes (bollinger_period params) (bollinger_std params);
          volume_ma = rolling_mean (volume_ma_period params) volumes;
          volume_ratio = map2 fdiv volumes volume_ma;
          atr = calculate_atr df (atr_period params);
          volatility = map (\<lambda>x. fmul x (Fin 100)) (map2 fdiv atr closes);
          roc = map (\<lambda>x. fmul x (Fin 100)) (pct_change 10 closes)
      in map (\<lambda>i. \<lparr>date = date (df ! i), open_price = open_price (df ! i),
                     close = close (df ! i), high = high (df ! i), low = low (df ! i),
                     volume = volume (df ! i), unencodable = unencodable (df ! i),
                     MA5 = ma5 ! i, MA20 = ma20 ! i, MA60 = ma60 ! i, RSI = rsi_col ! i,
                     MACD = macd ! i, Signal = signal ! i, MACD_hist = hist ! i,
                     BB_upper = bb_upper ! i, BB_middle = bb_middle ! i,
                     BB_lower = bb_lower ! i,
                     Volume_MA = volume_ma ! i, Volume_Ratio = volume_ratio ! i,
                     ATR = atr ! i, Volatility = volatility ! i, ROC = roc ! i\<rparr>)
           [0..<length df])"

section \<open>Fetching and normalising the price series\<close>

record stock_data_request =
  stock_code :: string
  market_type :: string
  start_date :: "string option"
  end_date :: "string option"

text \<open>What the three \<open>datetime.now()\<close> calls of a request give, already formatted.\<close>

record clock =
  year_ago :: string
  today :: string
  today_iso :: string

text \<open>The akshare calls, with the arguments that vary (the rest are constants).\<close>

datatype ak_call =
    Stock_zh_a_hist string string string
  | Stock_hk_daily string
  | Stock_us_hist string string string
  | Fund_etf_hist_em string string string
  | Fund_lof_hist_em string string string

text \<open>
  A row as the upstream source returns it. A date cell holds a date, nothing, or text
  that \<open>pd.to_datetime\<close> rejects; a numeric cell holds a number (possibly NaN) or
  something that \<open>pd.to_numeric(errors='coerce')\<close> turns into NaN. \<open>other_na\<close> says
  that a further column of the row holds a missing value (\<open>dropna()\<close> looks at every
  column), \<open>raw_unencodable\<close> that a further column holds a cell \<open>json.dumps\<close> cannot
  encode.
\<close>

datatype raw_date = Date int | NoDate | BadDate

datatype raw_num = Num pyfloat | NotNum

record raw_row =
  raw_date :: raw_date
  raw_open :: raw_num
  raw_close :: raw_num
  raw_high :: raw_num
  raw_low :: raw_num
  raw_volume :: raw_num
  other_na :: bool
  raw_unencodable :: bool

text \<open>
  The frame an upstream call returns: the names of its columns as they are after the
  renaming of \<open>get_stock_data\<close>, and its rows. The cells of a row under a column the
  frame lacks are never read. With no data akshare returns a frame without columns
  and without rows.
\<close>

record raw_frame =
  frame_columns :: "string list"
  frame_rows :: "raw_row list"

type_synonym akshare = "ak_call \<Rightarrow> py_exception + raw_frame"

definition numeric_columns :: "string list" where
  "numeric_columns = [''open'', ''close'', ''high'', ''low'', ''volume'']"

fun to_numeric :: "raw_num \<Rightarrow> pyfloat" where
  "to_numeric (Num x) = x"
| "to_numeric NotNum = NaN"

definition has_na :: "raw_row \<Rightarrow> bool" where
  "has_na r =
     (raw_date r = NoDate \<or> is_nan (to_numeric (raw_open r)) \<or> is_nan (to_numeric (raw_close r))
      \<or> is_nan (to_numeric (raw_high r)) \<or> is_nan (to_numeric (raw_low r))
      \<or> is_nan (to_numeric (raw_volume r)) \<or> other_na r)"

definition to_bar :: "raw_row \<Rightarrow> bar" where
  "to_bar r =
     \<lparr>date = (case raw_date r of Date t \<Rightarrow> t | _ \<Rightarrow> 0),
      open_price = to_numeric (raw_open r), close = to_numeric (raw_close r),
      high = to_numeric (raw_high r), low = to_numeric (raw_low r),
      volume = to_numeric (raw_volume r), unencodable = raw_unencodable r\<rparr>"

text \<open>
  The preprocessing block of \<open>get_stock_data\<close>: \<open>df['date']\<close> (raises when the frame
  has no such column), \<open>to_datetime\<close> (raises on a date it cannot parse),
  \<open>df[numeric_columns]\<close> (raises when the frame lacks one of them), \<open>to_numeric\<close>,
  \<open>dropna()\<close>, \<open>sort_values('date')\<close>. Nothing removes a repeated date and nothing
  counts the rows. Rows of equal date are left here in the order they had; on a long
  frame the library's default sort may order them otherwise, and the general
  statements below do not depend on their order.
\<close>

definition preprocess :: "raw_frame \<Rightarrow> py_exception + bar list" where
  "preprocess df =
     (if ''date'' \<notin> set (frame_columns df) then Inl (KeyError [''date''])
      else if list_ex (\<lambda>r. raw_date r = BadDate) (frame_rows df) then Inl ValueError_to_datetime
      else if \<not> list_all (\<lambda>c. c \<in> set (frame_columns df)) numeric_columns
        then Inl (KeyError (filter (\<lambda>c. c \<notin> set (frame_columns df)) numeric_columns))
      else Inr (sort_key date (map to_bar (filter (\<lambda>r. \<not> has_na r) (frame_rows df)))))"

text \<open>
  What the claims call a valid row: one that the preprocessing keeps, its date parsed
  and no cell missing.
\<close>

definition valid_row :: "raw_row \<Rightarrow> bool" where
  "valid_row r = (raw_date r \<noteq> BadDate \<and> \<not> has_na r)"

text \<open>\<open>a or b\<close> on an optional string: \<open>None\<close> and the empty string are false.\<close>

definition py_or :: "string option \<Rightarrow> string \<Rightarrow> string" where
  "py_or a b = (case a of None \<Rightarrow> b | Some s \<Rightarrow> (if s = [] then b else s))"

definition startswith :: "string \<Rightarrow> string \<Rightarrow> bool" where
  "startswith s p = (take (length p) s = p)"

definition valid_prefixes :: "string list" where
  "valid_prefixes = [''0'', ''3'', ''6'', ''688'', ''8'']"

text \<open>
  One upstream call followed by the preprocessing. The result of \<open>get_stock_data\<close> is
  paired with the upstream calls made, in order; the \<open>except\<close> clause logs and raises
  the same exception again.
\<close>

definition fetch :: "akshare \<Rightarrow> ak_call \<Rightarrow> ak_call list \<times> (py_exception + bar list)" where
  "fetch ak c = ([c], case ak c of Inl e \<Rightarrow> Inl e | Inr df \<Rightarrow> preprocess df)"

definition get_stock_data ::
  "clock \<Rightarrow> akshare \<Rightarrow> stock_data_request \<Rightarrow> ak_call list \<times> (py_exception + bar list)" where
  "get_stock_data clk ak request =
     (let start_d = py_or (start_date request) (year_ago clk);
          end_d = py_or (end_date request) (today clk)
      in if market_type request = ''A'' then
           (if \<not> list_ex (startswith (stock_code request)) valid_prefixes
            then ([], Inl (ValueError_invalid_code (stock_code request)))
            else fetch ak (Stock_zh_a_hist (stock_code request) start_d end_d))
         else if market_type request = ''HK'' then
           fetch ak (Stock_hk_daily (stock_code request))
         else if market_type request = ''US'' then
           fetch ak (Stock_us_hist (stock_code request) start_d end_d)
         else if market_type request = ''ETF'' then
           fetch ak (Fund_etf_hist_em (stock_code request) start_d end_d)
         else if market_type request = ''LOF'' then
           fetch ak (Fund_lof_hist_em (stock_code request) start_d end_d)
         else ([], Inl (ValueError_unsupported_market (market_type request))))"

section \<open>The analysis\<close>

record stock_analysis_result =
  res_stock_code :: string
  res_market_type :: string
  analysis_date :: string
  score :: pyfloat
  price :: pyfloat
  price_change :: pyfloat
  ma_trend :: string
  rsi :: "pyfloat option"
  macd_signal :: string
  volume_status :: string
  recommendation :: string

text \<open>
  \<open>analyze_stock\<close>: fetch, log the first five rows, add the indicators, score, read
  the last two rows, build the report (the fields \<open>stock_code\<close> and \<open>market_type\<close> of
  the report are named \<open>res_stock_code\<close> and \<open>res_market_type\<close>). Of the logging only
  what can raise is kept: the text of the debug line is built whatever the log level,
  by \<open>json.dumps\<close> on \<open>stock_data.head().to_dict()\<close>, which raises on a cell it cannot
  encode (dates, numbers and NaN it can).
\<close>

definition analyze_stock ::
  "clock \<Rightarrow> akshare \<Rightarrow> stock_data_request \<Rightarrow> ak_call list \<times> (py_exception + stock_analysis_result)" where
  "analyze_stock clk ak request =
     (case get_stock_data clk ak request of
        (calls, Inl e) \<Rightarrow> (calls, Inl e)
      | (calls, Inr fetched) \<Rightarrow>
          if list_ex unencodable (take 5 fetched) then (calls, Inl ValueError_json)
          else
          (let stock_data = calculate_indicators fetched in
           case calculate_score stock_data of
             Inl e \<Rightarrow> (calls, Inl e)
           | Inr sc \<Rightarrow>
               (case iloc stock_data (- 1) of
                  Inl e \<Rightarrow> (calls, Inl e)
                | Inr latest \<Rightarrow>
                    (case iloc stock_data (- 2) of
                       Inl e \<Rightarrow> (calls, Inl e)
                     | Inr prev \<Rightarrow>
                         (calls, Inr
                           \<lparr>res_stock_code = stock_code request,
                            res_market_type = market_type request,
                            analysis_date = today_iso clk,
                            score = Fin (of_int sc),
                            price = close latest,
                            price_change =
                              fmul (fdiv (fsub (close latest) (close prev)) (close prev)) (Fin 100),
                            ma_trend = (if fgt (MA5 latest) (MA20 latest) then ''UP'' else ''DOWN''),
                            rsi = (if \<not> is_nan (RSI latest) then Some (RSI latest) else None),
                            macd_signal =
                              (if fgt (MACD latest) (Signal latest) then ''BUY'' else ''SELL''),
                            volume_status =
                              (if fgt (Volume_Ratio latest) (Fin 1.5) then ''HIGH'' else ''NORMAL''),
                            recommendation = get_recommendation (Fin (of_int sc))\<rparr>)))))"

section \<open>Example data\<close>

text \<open>Concrete rows and frames on which the theorems below are instantiated.\<close>

definition mk_irow ::
  "pyfloat \<Rightarrow> pyfloat \<Rightarrow> pyfloat \<Rightarrow> pyfloat \<Rightarrow> pyfloat \<Rightarrow> pyfloat \<Rightarrow> pyfloat \<Rightarrow> irow" where
  "mk_irow a b c r m s v =
     \<lparr>date = 0, open_price = Fin 10, close = Fin 10, high = Fin 10, low = Fin 10,
      volume = Fin 100, unencodable = False,
      MA5 = a, MA20 = b, MA60 = c, RSI = r, MACD = m, Signal = s, MACD_hist = fsub m s,
      BB_upper = NaN, BB_middle = NaN, BB_lower = NaN, Volume_MA = NaN, Volume_Ratio = v,
      ATR = NaN, Volatility = NaN, ROC = NaN\<rparr>"

definition row_a :: irow where
  "row_a = mk_irow (Fin 11) (Fin 10) (Fin 9) (Fin 50) (Fin 1) (Fin 0.5) (Fin 1.2)"

definition row_b :: irow where
  "row_b = mk_irow (Fin 9) (Fin 10) (Fin 11) NaN (Fin 0) (Fin 0.5) NaN"

definition clock0 :: clock where
  "clock0 = \<lparr>year_ago = ''20240517'', today = ''20250517'', today_iso = ''2025-05-17''\<rparr>"

definition mk_request :: "string \<Rightarrow> string \<Rightarrow> stock_data_request" where
  "mk_request code market =
     \<lparr>stock_code = code, market_type = market, start_date = Some ''20250101'', end_date = None\<rparr>"

definition mk_raw :: "raw_date \<Rightarrow> raw_num \<Rightarrow> real \<Rightarrow> real \<Rightarrow> real \<Rightarrow> raw_row" where
  "mk_raw d c h l v =
     \<lparr>raw_date = d, raw_open = Num (Fin 10), raw_close = c, raw_high = Num (Fin h),
      raw_low = Num (Fin l), raw_volume = Num (Fin v), other_na = False,
      raw_unencodable = False\<rparr>"

definition mk_bar :: "int \<Rightarrow> real \<Rightarrow> real \<Rightarrow> real \<Rightarrow> real \<Rightarrow> bar" where
  "mk_bar d c h l v =
     \<lparr>date = d, open_price = Fin 10, close = Fin c, high = Fin h, low = Fin l, volume = Fin v,
      unencodable = False\<rparr>"

definition raw_two :: "raw_row list" where
  "raw_two = [mk_raw (Date 2) (Num (Fin 11)) 11.5 10 1500,
              mk_raw (Date 3) NotNum 12 11 1200,
              mk_raw (Date 1) (Num (Fin 10)) 10.5 9.5 1000]"

definition raw_one :: "raw_row list" where
  "raw_one = [mk_raw NoDate (Num (Fin 11)) 11.5 10 1500,
              mk_raw (Date 1) (Num (Fin 10)) 10.5 9.5 1000]"

definition raw_dup :: "raw_row list" where
  "raw_dup = [mk_raw (Date 5) (Num (Fin 10)) 10.5 9.5 1000,
              mk_raw (Date 5) (Num (Fin 11)) 11.5 10 1500]"

definition raw_bad_date :: "raw_row list" where
  "raw_bad_date = [mk_raw BadDate (Num (Fin 10)) 10.5 9.5 1000]"

definition raw_one_unencodable :: "raw_row list" where
  "raw_one_unencodable = [mk_raw (Date 1) (Num (Fin 10)) 10.5 9.5 1000\<lparr>raw_unencodable := True\<rparr>]"

definition all_columns :: "string list" where
  "all_columns = [''date'', ''open'', ''close'', ''high'', ''low'', ''volume'']"

definition empty_frame :: raw_frame where
  "empty_frame = \<lparr>frame_columns = [], frame_rows = []\<rparr>"

definition mk_frame :: "raw_row list \<Rightarrow> raw_frame" where
  "mk_frame rs = \<lparr>frame_columns = all_columns, frame_rows = rs\<rparr>"

definition ak_const :: "raw_row list \<Rightarrow> akshare" where
  "ak_const rs = (\<lambda>c. Inr (mk_frame rs))"

definition ak_frame :: "raw_frame \<Rightarrow> akshare" where
  "ak_frame fr = (\<lambda>c. Inr fr)"

definition ak_raise :: "py_exception \<Rightarrow> akshare" where
  "ak_raise e = (\<lambda>c. Inl e)"

definition bars_two :: "bar list" where
  "bars_two = [mk_bar 1 10 10.5 9.5 1000, mk_bar 2 11 11.5 10 1500]"

definition bars_three :: "bar list" where
  "bars_three = [mk_bar 1 10 10.5 9.5 1000, mk_bar 2 11 11.5 10 1500, mk_bar 3 11.5 12 10.5 1200]"

definition flat_bars :: "real \<Rightarrow> bar list" where
  "flat_bars v = map (\<lambda>d. mk_bar (int d) 10 10.5 9.5 v) [1..<21]"

section \<open>Properties of the scorer\<close>

lemma iloc_last: "df \<noteq> [] \<Longrightarrow> iloc df (- 1) = Inr (last df)"
  by (simp add: iloc_def Let_def last_conv_nth nat_diff_distrib')

lemma iloc_empty: "iloc [] i = Inl IndexError"
  by (simp add: iloc_def Let_def)

lemma calculate_score_rubric: "df \<noteq> [] \<Longrightarrow> calculate_score df = Inr (rubric (last df))"
  by (cases "RSI (last df)")
     (simp_all add: calculate_score_def iloc_last Let_def rubric_def trend_points_def
        rsi_points_def macd_points_def volume_points_def)

lemma trend_points_cases: "trend_points r \<in> {0, 15, 30}"
  by (simp add: trend_points_def)

lemma rsi_points_cases: "rsi_points r \<in> {0, 15, 20}"
  by (simp add: rsi_points_def)

lemma macd_points_cases: "macd_points r \<in> {0, 20}"
  by (simp add: macd_points_def)

lemma volume_points_cases: "volume_points r \<in> {0, 15, 30}"
  by (simp add: volume_points_def)

lemma rubric_bounds: "0 \<le> rubric r \<and> rubric r \<le> 100"
  using trend_points_cases [of r] rsi_points_cases [of r] macd_points_cases [of r]
    volume_points_cases [of r]
  unfolding rubric_def by auto

lemma rubric_dvd: "5 dvd rubric r"
proof -
  have "5 dvd trend_points r" using trend_points_cases [of r] by auto
  moreover have "5 dvd rsi_points r" using rsi_points_cases [of r] by auto
  moreover have "5 dvd macd_points r" using macd_points_cases [of r] by auto
  moreover have "5 dvd volume_points r" using volume_points_cases [of r] by auto
  ultimately show ?thesis unfolding rubric_def by (intro dvd_add)
qed

text \<open>
  Claim C1. On every frame with a last row, \<open>_calculate_score\<close> returns the additive
  rubric of that row: 15 for MA5 above MA20, 15 for MA20 above MA60, 20 for an RSI
  within 30 and 70 or else 15 for an RSI below 30 (a NaN RSI gives 0), 20 for MACD
  above Signal, 30 for a volume ratio above 1.5 or else 15 above 1. The score lies
  between 0 and 100.
\<close>

theorem score_is_rubric:
  "df \<noteq> [] \<Longrightarrow>
     calculate_score df = Inr (rubric (last df)) \<and> 0 \<le> rubric (last df) \<and> rubric (last df) \<le> 100"
  using calculate_score_rubric [of df] rubric_bounds [of "last df"] by simp

theorem score_is_rubric_witness:
  "[row_b, row_a] \<noteq> [] \<and> calculate_score [row_b, row_a] = Inr 85 \<and> rubric row_a = 85
     \<and> rubric row_b = 0"
  using score_is_rubric [of "[row_b, row_a]"]
  by (simp add: rubric_def trend_points_def rsi_points_def macd_points_def volume_points_def
      row_a_def row_b_def mk_irow_def fgt_def)

text \<open>
  Claim C9. The score depends on the last row only, and there only on the seven columns
  the rubric reads: two frames whose last rows agree on them get the same score,
  whatever the rows before.
\<close>

theorem score_latest_only:
  "df1 \<noteq> [] \<Longrightarrow> df2 \<noteq> [] \<Longrightarrow>
   MA5 (last df1) = MA5 (last df2) \<Longrightarrow> MA20 (last df1) = MA20 (last df2) \<Longrightarrow>
   MA60 (last df1) = MA60 (last df2) \<Longrightarrow> RSI (last df1) = RSI (last df2) \<Longrightarrow>
   MACD (last df1) = MACD (last df2) \<Longrightarrow> Signal (last df1) = Signal (last df2) \<Longrightarrow>
   Volume_Ratio (last df1) = Volume_Ratio (last df2) \<Longrightarrow>
   calculate_score df1 = calculate_score df2"
  by (simp add: calculate_score_def iloc_last)

theorem score_latest_only_witness:
  "calculate_score [row_b, row_a] = calculate_score [row_a, row_a, row_a]"
  using score_latest_only [of "[row_b, row_a]" "[row_a, row_a, row_a]"] by simp

text \<open>
  Claim C10. Every score the scorer returns is an integer multiple of 5 between 0 and
  100, so no score lies strictly between two multiples of 5 (79.999 is never produced).
\<close>

theorem score_multiple_of_5:
  "calculate_score df = Inr s \<Longrightarrow> 5 dvd s \<and> 0 \<le> s \<and> s \<le> 100"
proof -
  assume a: "calculate_score df = Inr s"
  have "df \<noteq> []" using a by (auto simp: calculate_score_def iloc_empty)
  then have "s = rubric (last df)" using a calculate_score_rubric [of df] by simp
  then show ?thesis using rubric_dvd [of "last df"] rubric_bounds [of "last df"] by simp
qed

theorem score_multiple_of_5_witness:
  "calculate_score [row_a] = Inr 85 \<and> (5::int) dvd 85"
proof -
  have h: "calculate_score [row_a] = Inr 85"
    by (simp add: calculate_score_def iloc_def row_a_def mk_irow_def fgt_def)
  show ?thesis using h score_multiple_of_5 [OF h] by simp
qed

section \<open>Properties of the recommendation\<close>

text \<open>
  Claim C2. \<open>_get_recommendation\<close> is a function of the score alone: at or above 80
  the strongest buy label, from 60 up to 80 the buy label, from 40 up to 60 the hold
  label, from 20 up to 40 the sell label, below 20 the strongest sell label. Each of
  80, 60, 40 and 20 gets the label of the range above it, and the five labels differ.
\<close>

theorem recommendation_thresholds:
  "(fge s (Fin 80) \<longrightarrow> get_recommendation s = label_strong_buy) \<and>
   (fge s (Fin 60) \<and> flt s (Fin 80) \<longrightarrow> get_recommendation s = label_buy) \<and>
   (fge s (Fin 40) \<and> flt s (Fin 60) \<longrightarrow> get_recommendation s = label_hold) \<and>
   (fge s (Fin 20) \<and> flt s (Fin 40) \<longrightarrow> get_recommendation s = label_sell) \<and>
   (flt s (Fin 20) \<longrightarrow> get_recommendation s = label_strong_sell) \<and>
   get_recommendation (Fin 80) = label_strong_buy \<and>
   get_recommendation (Fin 60) = label_buy \<and>
   get_recommendation (Fin 40) = label_hold \<and>
   get_recommendation (Fin 20) = label_sell \<and>
   distinct [label_strong_buy, label_buy, label_hold, label_sell, label_strong_sell]"
  by (cases s) (simp_all add: get_recommendation_def fge_def label_strong_buy_def label_buy_def
      label_hold_def label_sell_def label_strong_sell_def)

theorem recommendation_thresholds_witness:
  "get_recommendation (Fin 85) = label_strong_buy \<and>
   get_recommendation (Fin 79.999) = label_buy \<and>
   get_recommendation (Fin 45) = label_hold \<and>
   get_recommendation (Fin 35) = label_sell \<and>
   get_recommendation (Fin 15) = label_strong_sell"
  using recommendation_thresholds [of "Fin 85"] recommendation_thresholds [of "Fin 79.999"]
    recommendation_thresholds [of "Fin 45"] recommendation_thresholds [of "Fin 35"]
    recommendation_thresholds [of "Fin 15"]
  by (simp add: fge_def)

section \<open>Properties of the pipeline\<close>

lemma length_calculate_indicators: "length (calculate_indicators df) = length df"
  by (simp add: calculate_indicators_def Let_def split_def)

lemma length_rolling_mean: "length (rolling_mean w xs) = length xs"
  by (simp add: rolling_mean_def)

lemma nth_calculate_indicators:
  assumes "i < length df"
  shows "close (calculate_indicators df ! i) = close (df ! i)"
    and "MA5 (calculate_indicators df ! i) = calculate_ema (map close df) 5 ! i"
    and "MA20 (calculate_indicators df ! i) = calculate_ema (map close df) 20 ! i"
    and "MA60 (calculate_indicators df ! i) = calculate_ema (map close df) 60 ! i"
    and "RSI (calculate_indicators df ! i) = calculate_rsi (map close df) 14 ! i"
    and "MACD (calculate_indicators df ! i) = fst (calculate_macd (map close df)) ! i"
    and "Signal (calculate_indicators df ! i) = fst (snd (calculate_macd (map close df))) ! i"
    and "Volume_MA (calculate_indicators df ! i) = rolling_mean 20 (map volume df) ! i"
    and "Volume_Ratio (calculate_indicators df ! i) =
           fdiv (volume (df ! i)) (rolling_mean 20 (map volume df) ! i)"
    and "ATR (calculate_indicators df ! i) = calculate_atr df 14 ! i"
  using assms
  by (simp_all add: calculate_indicators_def Let_def split_def params_def length_rolling_mean)

lemma iloc_second_last: "2 \<le> length df \<Longrightarrow> iloc df (- 2) = Inr (df ! (length df - 2))"
  by (simp add: iloc_def Let_def nat_diff_distrib')

lemma iloc_short: "length df < 2 \<Longrightarrow> iloc df (- 2) = Inl IndexError"
  by (simp add: iloc_def Let_def)

lemma calculate_score_empty: "calculate_score [] = Inl IndexError"
  by (simp add: calculate_score_def iloc_empty)

lemma analyze_fetch_error:
  "snd (get_stock_data clk ak request) = Inl e \<Longrightarrow> snd (analyze_stock clk ak request) = Inl e"
  by (cases "get_stock_data clk ak request") (simp add: analyze_stock_def)

lemma analyze_unencodable:
  assumes "snd (get_stock_data clk ak request) = Inr fetched"
    and "list_ex unencodable (take 5 fetched)"
  shows "snd (analyze_stock clk ak request) = Inl ValueError_json"
  using assms by (cases "get_stock_data clk ak request") (simp add: analyze_stock_def)

lemma analyze_short:
  assumes "snd (get_stock_data clk ak request) = Inr fetched" "length fetched < 2"
    and "\<not> list_ex unencodable (take 5 fetched)"
  shows "snd (analyze_stock clk ak request) = Inl IndexError"
proof (cases "fetched = []")
  case True
  then show ?thesis using assms(1)
    by (cases "get_stock_data clk ak request")
       (simp add: analyze_stock_def calculate_indicators_def calculate_score_empty Let_def split_def)
next
  case False
  then have ne: "calculate_indicators fetched \<noteq> []"
    using length_calculate_indicators [of fetched] by auto
  have sh: "length (calculate_indicators fetched) < 2"
    using assms(2) by (simp add: length_calculate_indicators)
  show ?thesis using assms(1,3)
    by (cases "get_stock_data clk ak request")
       (simp add: analyze_stock_def Let_def calculate_score_rubric [OF ne] iloc_last [OF ne]
          iloc_short [OF sh])
qed

lemma get_stock_data_call:
  "fst (get_stock_data clk ak request) = [c] \<Longrightarrow>
     snd (get_stock_data clk ak request) = (case ak c of Inl e \<Rightarrow> Inl e | Inr fr \<Rightarrow> preprocess fr)"
  by (auto simp: get_stock_data_def fetch_def Let_def split: if_splits)

lemma preprocess_sorted:
  assumes "preprocess raw = Inr df"
  shows "sorted (map date df) \<and>
         mset df = mset (map to_bar (filter (\<lambda>r. \<not> has_na r) (frame_rows raw)))"
  using assms by (auto simp: preprocess_def split: if_splits)

lemma preprocess_cases:
  "preprocess fr =
     (if ''date'' \<notin> set (frame_columns fr) then Inl (KeyError [''date''])
      else if list_ex (\<lambda>r. raw_date r = BadDate) (frame_rows fr) then Inl ValueError_to_datetime
      else if \<not> list_all (\<lambda>c. c \<in> set (frame_columns fr)) numeric_columns
        then Inl (KeyError (filter (\<lambda>c. c \<notin> set (frame_columns fr)) numeric_columns))
      else Inr (sort_key date (map to_bar (filter valid_row (frame_rows fr)))))"
proof -
  have "filter (\<lambda>r. \<not> has_na r) (frame_rows fr) = filter valid_row (frame_rows fr)"
    if "\<not> list_ex (\<lambda>r. raw_date r = BadDate) (frame_rows fr)"
    using that by (intro filter_cong) (auto simp: valid_row_def list_ex_iff)
  then show ?thesis by (simp add: preprocess_def)
qed

lemma unencodable_sorted_rows:
  "list_ex unencodable (sort_key date (map to_bar (filter valid_row rs)))
     = list_ex (\<lambda>r. valid_row r \<and> raw_unencodable r) rs"
  by (auto simp: list_ex_iff to_bar_def)

lemma short_failure:
  assumes c: "fst (get_stock_data clk ak request) = [c]" and fr: "ak c = Inr fr"
    and few: "length (filter valid_row (frame_rows fr)) < 2"
  shows "snd (analyze_stock clk ak request) =
           Inl (if ''date'' \<notin> set (frame_columns fr) then KeyError [''date'']
                else if list_ex (\<lambda>r. raw_date r = BadDate) (frame_rows fr)
                  then ValueError_to_datetime
                else if \<not> list_all (\<lambda>c. c \<in> set (frame_columns fr)) numeric_columns
                  then KeyError (filter (\<lambda>c. c \<notin> set (frame_columns fr)) numeric_columns)
                else if list_ex (\<lambda>r. valid_row r \<and> raw_unencodable r) (frame_rows fr)
                  then ValueError_json
                else IndexError)"
proof -
  let ?kept = "sort_key date (map to_bar (filter valid_row (frame_rows fr)))"
  have g: "snd (get_stock_data clk ak request) = preprocess fr"
    using get_stock_data_call [OF c] fr by simp
  have len: "length ?kept < 2" using few by simp
  then have tk: "take 5 ?kept = ?kept" by simp
  show ?thesis
  proof (cases "preprocess fr")
    case (Inl e)
    then show ?thesis
      using analyze_fetch_error [of clk ak request e] g
      by (simp add: preprocess_cases split: if_splits)
  next
    case (Inr fetched)
    then have f: "fetched = ?kept" and ok: "''date'' \<in> set (frame_columns fr)"
      "\<not> list_ex (\<lambda>r. raw_date r = BadDate) (frame_rows fr)"
      "list_all (\<lambda>c. c \<in> set (frame_columns fr)) numeric_columns"
      by (simp_all add: preprocess_cases split: if_splits)
    have g': "snd (get_stock_data clk ak request) = Inr ?kept" using g Inr f by simp
    show ?thesis
    proof (cases "list_ex (\<lambda>r. valid_row r \<and> raw_unencodable r) (frame_rows fr)")
      case True
      then have "list_ex unencodable (take 5 ?kept)"
        by (simp only: tk unencodable_sorted_rows)
      then show ?thesis using analyze_unencodable [OF g'] ok True by simp
    next
      case False
      then have "\<not> list_ex unencodable (take 5 ?kept)"
        by (simp only: tk unencodable_sorted_rows) simp
      then show ?thesis using analyze_short [OF g' len] ok False by simp
    qed
  qed
qed

lemma upstream_failure:
  assumes "fst (get_stock_data clk ak request) = [c]" and "ak c = Inl e"
  shows "snd (analyze_stock clk ak request) = Inl e"
  using get_stock_data_call [OF assms(1)] assms(2) analyze_fetch_error [of clk ak request e]
  by simp

lemmas ex_defs = clock0_def mk_request_def mk_raw_def mk_bar_def raw_two_def raw_one_def raw_dup_def
  raw_bad_date_def raw_one_unencodable_def all_columns_def
  empty_frame_def mk_frame_def ak_const_def ak_frame_def ak_raise_def numeric_columns_def

lemma get_raw_two:
  "get_stock_data clock0 (ak_const raw_two) (mk_request ''600519'' ''A'') =
     ([Stock_zh_a_hist ''600519'' ''20250101'' ''20250517''],
      Inr [mk_bar 1 10 10.5 9.5 1000, mk_bar 2 11 11.5 10 1500])"
  by (simp add: get_stock_data_def fetch_def preprocess_def py_or_def startswith_def
      valid_prefixes_def has_na_def to_bar_def ex_defs)

lemma get_raw_one:
  "get_stock_data clock0 (ak_const raw_one) (mk_request ''600519'' ''A'') =
     ([Stock_zh_a_hist ''600519'' ''20250101'' ''20250517''],
      Inr [mk_bar 1 10 10.5 9.5 1000])"
  by (simp add: get_stock_data_def fetch_def preprocess_def py_or_def startswith_def
      valid_prefixes_def has_na_def to_bar_def ex_defs)

lemma call_600519:
  "fst (get_stock_data clock0 ak (mk_request ''600519'' ''A''))
     = [Stock_zh_a_hist ''600519'' ''20250101'' ''20250517'']"
  by (simp add: get_stock_data_def fetch_def py_or_def startswith_def valid_prefixes_def
      clock0_def mk_request_def Let_def)

text \<open>
  Claim C3, as stated, fails: with one valid row left, \<open>get_stock_data\<close> returns the
  one-row series without any failure, and the analysis ends with the \<open>IndexError\<close> of
  positional indexing, the same outcome as when the upstream call itself raises
  \<open>IndexError\<close>.
\<close>

theorem short_series_counterexample:
  "snd (get_stock_data clock0 (ak_const raw_one) (mk_request ''600519'' ''A''))
     = Inr [mk_bar 1 10 10.5 9.5 1000] \<and>
   snd (analyze_stock clock0 (ak_const raw_one) (mk_request ''600519'' ''A'')) = Inl IndexError \<and>
   snd (analyze_stock clock0 (ak_raise IndexError) (mk_request ''600519'' ''A'')) = Inl IndexError"
proof -
  have a: "snd (get_stock_data clock0 (ak_const raw_one) (mk_request ''600519'' ''A''))
     = Inr [mk_bar 1 10 10.5 9.5 1000]"
    by (simp add: get_raw_one)
  have b: "snd (analyze_stock clock0 (ak_const raw_one) (mk_request ''600519'' ''A'')) = Inl IndexError"
    using analyze_short [OF a] by (simp add: mk_bar_def)
  have c: "snd (analyze_stock clock0 (ak_raise IndexError) (mk_request ''600519'' ''A'')) = Inl IndexError"
    by (rule upstream_failure [OF call_600519]) (simp add: ak_raise_def)
  show ?thesis using a b c by simp
qed

text \<open>
  Claim C3, amended. Let the request reach its upstream call. When the call returns a
  frame with fewer than 2 valid rows, the analysis fails, in the first of these ways
  that applies: with the \<open>KeyError\<close> of \<open>df['date']\<close> when the frame has no date column;
  with the \<open>ValueError\<close> of \<open>to_datetime\<close> when a date cannot be parsed; with the
  \<open>KeyError\<close> of \<open>df[numeric_columns]\<close> when the frame lacks one of them; with the
  \<open>ValueError\<close> of \<open>json.dumps\<close> when the valid row has a cell that cannot be encoded;
  and otherwise, \<open>get_stock_data\<close> having returned the short series, with the
  \<open>IndexError\<close> of \<open>iloc[-1]\<close> (no row) or \<open>iloc[-2]\<close> (one row). When the call raises,
  the analysis ends with the exception it raised. No exception of its own marks
  insufficient data.
\<close>

theorem short_series_failure:
  assumes "fst (get_stock_data clk ak request) = [c]"
  shows "(\<forall>e. ak c = Inl e \<longrightarrow> snd (analyze_stock clk ak request) = Inl e) \<and>
         (\<forall>fr. ak c = Inr fr \<and> length (filter valid_row (frame_rows fr)) < 2 \<longrightarrow>
            snd (analyze_stock clk ak request) =
              Inl (if ''date'' \<notin> set (frame_columns fr) then KeyError [''date'']
                   else if list_ex (\<lambda>r. raw_date r = BadDate) (frame_rows fr)
                     then ValueError_to_datetime
                   else if \<not> list_all (\<lambda>c. c \<in> set (frame_columns fr)) numeric_columns
                     then KeyError (filter (\<lambda>c. c \<notin> set (frame_columns fr)) numeric_columns)
                   else if list_ex (\<lambda>r. valid_row r \<and> raw_unencodable r) (frame_rows fr)
                     then ValueError_json
                   else IndexError))"
  using upstream_failure [OF assms] short_failure [OF assms] by blast

theorem short_series_failure_witness:
  "snd (analyze_stock clock0 (ak_raise IndexError) (mk_request ''600519'' ''A'')) = Inl IndexError \<and>
   snd (analyze_stock clock0 (ak_const raw_one) (mk_request ''600519'' ''A'')) = Inl IndexError \<and>
   snd (analyze_stock clock0 (ak_const []) (mk_request ''600519'' ''A'')) = Inl IndexError \<and>
   snd (analyze_stock clock0 (ak_const raw_bad_date) (mk_request ''600519'' ''A''))
     = Inl ValueError_to_datetime \<and>
   snd (analyze_stock clock0 (ak_frame empty_frame) (mk_request ''600519'' ''A''))
     = Inl (KeyError [''date'']) \<and>
   snd (analyze_stock clock0 (ak_frame \<lparr>frame_columns = [''date'', ''close''], frame_rows = []\<rparr>)
          (mk_request ''600519'' ''A''))
     = Inl (KeyError [''open'', ''high'', ''low'', ''volume'']) \<and>
   snd (analyze_stock clock0 (ak_const raw_one_unencodable) (mk_request ''600519'' ''A''))
     = Inl ValueError_json"
  using short_series_failure [OF call_600519, of "ak_raise IndexError"]
    short_series_failure [OF call_600519, of "ak_const raw_one"]
    short_series_failure [OF call_600519, of "ak_const []"]
    short_series_failure [OF call_600519, of "ak_const raw_bad_date"]
    short_series_failure [OF call_600519, of "ak_frame empty_frame"]
    short_series_failure [OF call_600519,
      of "ak_frame \<lparr>frame_columns = [''date'', ''close''], frame_rows = []\<rparr>"]
    short_series_failure [OF call_600519, of "ak_const raw_one_unencodable"]
  by (simp add: valid_row_def has_na_def ex_defs)

text \<open>
  Claim C4, as stated, fails: two rows with the same date are both kept, so the dates of
  the result are neither unique nor strictly increasing.
\<close>

theorem duplicate_dates_counterexample:
  "preprocess (mk_frame raw_dup) = Inr [mk_bar 5 10 10.5 9.5 1000, mk_bar 5 11 11.5 10 1500] \<and>
   \<not> distinct (map date [mk_bar 5 10 10.5 9.5 1000, mk_bar 5 11 11.5 10 1500]) \<and>
   \<not> sorted_wrt (<) (map date [mk_bar 5 10 10.5 9.5 1000, mk_bar 5 11 11.5 10 1500])"
  by (simp add: preprocess_def has_na_def to_bar_def ex_defs)

text \<open>
  Claim C4, amended. When the preprocessing succeeds, its result holds exactly the rows
  without a missing value (each as often as the source has it), in non-decreasing order
  of date.
\<close>

theorem preprocess_sorted_by_date:
  "preprocess raw = Inr df \<Longrightarrow>
     sorted (map date df) \<and>
     mset df = mset (map to_bar (filter (\<lambda>r. \<not> has_na r) (frame_rows raw)))"
  by (rule preprocess_sorted)

theorem preprocess_sorted_by_date_witness:
  "preprocess (mk_frame raw_two) = Inr [mk_bar 1 10 10.5 9.5 1000, mk_bar 2 11 11.5 10 1500] \<and>
   sorted (map date [mk_bar 1 10 10.5 9.5 1000, mk_bar 2 11 11.5 10 1500]) \<and>
   mset [mk_bar 1 10 10.5 9.5 1000, mk_bar 2 11 11.5 10 1500] =
     mset (map to_bar (filter (\<lambda>r. \<not> has_na r) (frame_rows (mk_frame raw_two))))"
proof -
  have a: "preprocess (mk_frame raw_two)
             = Inr [mk_bar 1 10 10.5 9.5 1000, mk_bar 2 11 11.5 10 1500]"
    by (simp add: preprocess_def has_na_def to_bar_def ex_defs)
  show ?thesis using a preprocess_sorted_by_date [OF a] by simp
qed

text \<open>
  Claim C5. For market type \<open>A\<close>, \<open>get_stock_data\<close> ends with the invalid-code
  \<open>ValueError\<close> and no upstream call exactly when the code starts with none of the
  prefixes 0, 3, 6, 688, 8; the code 600519 passes the test and 12345 does not. For
  \<open>HK\<close>, \<open>US\<close>, \<open>ETF\<close> and \<open>LOF\<close> the upstream call is made with the code as given,
  whatever it is.
\<close>

theorem a_share_prefix_check:
  "(market_type request = ''A'' \<longrightarrow>
      ((get_stock_data clk ak request = ([], Inl (ValueError_invalid_code (stock_code request))))
         = (\<not> list_ex (startswith (stock_code request)) valid_prefixes)) \<and>
      ((fst (get_stock_data clk ak request) = [])
         = (\<not> list_ex (startswith (stock_code request)) valid_prefixes))) \<and>
   list_ex (startswith ''600519'') valid_prefixes \<and>
   \<not> list_ex (startswith ''12345'') valid_prefixes \<and>
   (market_type request = ''HK'' \<longrightarrow>
      get_stock_data clk ak request = fetch ak (Stock_hk_daily (stock_code request))) \<and>
   (market_type request = ''US'' \<longrightarrow>
      get_stock_data clk ak request =
        fetch ak (Stock_us_hist (stock_code request) (py_or (start_date request) (year_ago clk))
                    (py_or (end_date request) (today clk)))) \<and>
   (market_type request = ''ETF'' \<longrightarrow>
      get_stock_data clk ak request =
        fetch ak (Fund_etf_hist_em (stock_code request) (py_or (start_date request) (year_ago clk))
                    (py_or (end_date request) (today clk)))) \<and>
   (market_type request = ''LOF'' \<longrightarrow>
      get_stock_data clk ak request =
        fetch ak (Fund_lof_hist_em (stock_code request) (py_or (start_date request) (year_ago clk))
                    (py_or (end_date request) (today clk)))) \<and>
   fst (fetch ak c) = [c]"
  by (simp add: get_stock_data_def Let_def fetch_def startswith_def valid_prefixes_def)

theorem a_share_prefix_check_witness:
  "get_stock_data clock0 (ak_const raw_two) (mk_request ''12345'' ''A'')
     = ([], Inl (ValueError_invalid_code ''12345'')) \<and>
   fst (get_stock_data clock0 (ak_const raw_two) (mk_request ''600519'' ''A'')) \<noteq> [] \<and>
   fst (get_stock_data clock0 (ak_const raw_two) (mk_request ''12345'' ''HK''))
     = [Stock_hk_daily ''12345''] \<and>
   fst (get_stock_data clock0 (ak_const raw_two) (mk_request ''12345'' ''US''))
     = [Stock_us_hist ''12345'' ''20250101'' ''20250517''] \<and>
   fst (get_stock_data clock0 (ak_const raw_two) (mk_request ''12345'' ''ETF''))
     = [Fund_etf_hist_em ''12345'' ''20250101'' ''20250517''] \<and>
   fst (get_stock_data clock0 (ak_const raw_two) (mk_request ''12345'' ''LOF''))
     = [Fund_lof_hist_em ''12345'' ''20250101'' ''20250517'']"
  using a_share_prefix_check [of "mk_request ''12345'' ''A''" clock0 "ak_const raw_two"]
    a_share_prefix_check [of "mk_request ''600519'' ''A''" clock0 "ak_const raw_two"]
    a_share_prefix_check [of "mk_request ''12345'' ''HK''" clock0 "ak_const raw_two"
       "Stock_hk_daily ''12345''"]
    a_share_prefix_check [of "mk_request ''12345'' ''US''" clock0 "ak_const raw_two"
       "Stock_us_hist ''12345'' ''20250101'' ''20250517''"]
    a_share_prefix_check [of "mk_request ''12345'' ''ETF''" clock0 "ak_const raw_two"
       "Fund_etf_hist_em ''12345'' ''20250101'' ''20250517''"]
    a_share_prefix_check [of "mk_request ''12345'' ''LOF''" clock0 "ak_const raw_two"
       "Fund_lof_hist_em ''12345'' ''20250101'' ''20250517''"]
  by (simp add: mk_request_def clock0_def py_or_def)

lemma analyze_long:
  assumes g: "snd (get_stock_data clk ak request) = Inr fetched" and n: "2 \<le> length fetched"
    and enc: "\<not> list_ex unencodable (take 5 fetched)"
  shows "snd (analyze_stock clk ak request) =
     Inr \<lparr>res_stock_code = stock_code request,
          res_market_type = market_type request,
          analysis_date = today_iso clk,
          score = Fin (of_int (rubric (last (calculate_indicators fetched)))),
          price = close (last (calculate_indicators fetched)),
          price_change =
            fmul (fdiv (fsub (close (last (calculate_indicators fetched)))
                             (close (calculate_indicators fetched ! (length fetched - 2))))
                       (close (calculate_indicators fetched ! (length fetched - 2)))) (Fin 100),
          ma_trend = (if fgt (MA5 (last (calculate_indicators fetched)))
                             (MA20 (last (calculate_indicators fetched))) then ''UP'' else ''DOWN''),
          rsi = (if \<not> is_nan (RSI (last (calculate_indicators fetched)))
                 then Some (RSI (last (calculate_indicators fetched))) else None),
          macd_signal = (if fgt (MACD (last (calculate_indicators fetched)))
                                (Signal (last (calculate_indicators fetched))) then ''BUY'' else ''SELL''),
          volume_status = (if fgt (Volume_Ratio (last (calculate_indicators fetched))) (Fin 1.5)
                           then ''HIGH'' else ''NORMAL''),
          recommendation =
            get_recommendation (Fin (of_int (rubric (last (calculate_indicators fetched)))))\<rparr>"
proof -
  have len: "length (calculate_indicators fetched) = length fetched"
    by (rule length_calculate_indicators)
  have ne: "calculate_indicators fetched \<noteq> []" using n len by auto
  have two: "2 \<le> length (calculate_indicators fetched)" using n len by simp
  show ?thesis using g enc
    by (cases "get_stock_data clk ak request")
       (simp add: analyze_stock_def Let_def calculate_score_rubric [OF ne] iloc_last [OF ne]
          iloc_second_last [OF two] len)
qed

lemma analyze_success:
  assumes ok: "snd (analyze_stock clk ak request) = Inr res"
  shows "\<exists>fetched. snd (get_stock_data clk ak request) = Inr fetched \<and> 2 \<le> length fetched \<and>
           \<not> list_ex unencodable (take 5 fetched)"
proof (cases "snd (get_stock_data clk ak request)")
  case (Inl e)
  then show ?thesis using analyze_fetch_error [of clk ak request e] ok by simp
next
  case (Inr fetched)
  have "\<not> list_ex unencodable (take 5 fetched)"
    using analyze_unencodable [OF Inr] ok by auto
  moreover from this have "2 \<le> length fetched"
    using analyze_short [OF Inr] ok by (cases "length fetched < 2") auto
  ultimately show ?thesis using Inr by simp
qed

lemma report_fields:
  assumes g: "snd (get_stock_data clk ak request) = Inr fetched" and n: "2 \<le> length fetched"
    and ok: "snd (analyze_stock clk ak request) = Inr res"
  shows "price_change res =
       fmul (fdiv (fsub (close (last fetched)) (close (fetched ! (length fetched - 2))))
                  (close (fetched ! (length fetched - 2)))) (Fin 100) \<and>
     (ma_trend res = ''UP'') = fgt (MA5 (last (calculate_indicators fetched)))
                                  (MA20 (last (calculate_indicators fetched))) \<and>
     (ma_trend res = ''DOWN'') = (\<not> fgt (MA5 (last (calculate_indicators fetched)))
                                       (MA20 (last (calculate_indicators fetched)))) \<and>
     (macd_signal res = ''BUY'') = fgt (MACD (last (calculate_indicators fetched)))
                                      (Signal (last (calculate_indicators fetched))) \<and>
     (macd_signal res = ''SELL'') = (\<not> fgt (MACD (last (calculate_indicators fetched)))
                                          (Signal (last (calculate_indicators fetched)))) \<and>
     (volume_status res = ''HIGH'') =
        fgt (Volume_Ratio (last (calculate_indicators fetched))) (Fin 1.5) \<and>
     (volume_status res = ''NORMAL'') =
        (\<not> fgt (Volume_Ratio (last (calculate_indicators fetched))) (Fin 1.5))"
proof -
  have enc: "\<not> list_ex unencodable (take 5 fetched)"
    using analyze_unencodable [OF g] ok by auto
  have len: "length (calculate_indicators fetched) = length fetched"
    by (rule length_calculate_indicators)
  have ne: "calculate_indicators fetched \<noteq> []" "fetched \<noteq> []" using n len by auto
  have c1: "close (last (calculate_indicators fetched)) = close (last fetched)"
    using ne n by (simp add: last_conv_nth len nth_calculate_indicators(1))
  have c2: "close (calculate_indicators fetched ! (length fetched - 2))
              = close (fetched ! (length fetched - 2))"
    using n by (simp add: nth_calculate_indicators(1))
  show ?thesis
    using ok unfolding analyze_long [OF g n enc] using c1 c2 by (auto split: if_splits)
qed

text \<open>
  Claim C6. Every successful analysis comes from a normalised series of at least 2
  rows, and in its report \<open>price_change\<close> is the last close minus the close before it,
  over the close before it, times 100; \<open>ma_trend\<close> is \<open>UP\<close> exactly when the last MA5 is
  above the last MA20 and \<open>DOWN\<close> otherwise; \<open>macd_signal\<close> is \<open>BUY\<close> exactly when the
  last MACD is above the last Signal and \<open>SELL\<close> otherwise; \<open>volume_status\<close> is \<open>HIGH\<close>
  exactly when the last volume ratio is above 1.5 and \<open>NORMAL\<close> otherwise. The analysis
  of a series of at least 2 rows does succeed when the cells of its first five rows
  can be encoded for the log.
\<close>

theorem analysis_report_fields:
  "(\<forall>res. snd (analyze_stock clk ak request) = Inr res \<longrightarrow>
      (\<exists>fetched. snd (get_stock_data clk ak request) = Inr fetched \<and> 2 \<le> length fetched \<and>
         price_change res =
           fmul (fdiv (fsub (close (last fetched)) (close (fetched ! (length fetched - 2))))
                      (close (fetched ! (length fetched - 2)))) (Fin 100) \<and>
         (ma_trend res = ''UP'') = fgt (MA5 (last (calculate_indicators fetched)))
                                      (MA20 (last (calculate_indicators fetched))) \<and>
         (ma_trend res = ''DOWN'') = (\<not> fgt (MA5 (last (calculate_indicators fetched)))
                                           (MA20 (last (calculate_indicators fetched)))) \<and>
         (macd_signal res = ''BUY'') = fgt (MACD (last (calculate_indicators fetched)))
                                          (Signal (last (calculate_indicators fetched))) \<and>
         (macd_signal res = ''SELL'') = (\<not> fgt (MACD (last (calculate_indicators fetched)))
                                              (Signal (last (calculate_indicators fetched)))) \<and>
         (volume_status res = ''HIGH'') =
            fgt (Volume_Ratio (last (calculate_indicators fetched))) (Fin 1.5) \<and>
         (volume_status res = ''NORMAL'') =
            (\<not> fgt (Volume_Ratio (last (calculate_indicators fetched))) (Fin 1.5)))) \<and>
   (\<forall>fetched. snd (get_stock_data clk ak request) = Inr fetched \<and> 2 \<le> length fetched \<and>
        \<not> list_ex unencodable (take 5 fetched) \<longrightarrow>
      (\<exists>res. snd (analyze_stock clk ak request) = Inr res))"
proof (intro conjI allI impI)
  fix res
  assume ok: "snd (analyze_stock clk ak request) = Inr res"
  then obtain fetched where g: "snd (get_stock_data clk ak request) = Inr fetched"
    and n: "2 \<le> length fetched"
    using analyze_success by blast
  show "\<exists>fetched. snd (get_stock_data clk ak request) = Inr fetched \<and> 2 \<le> length fetched \<and>
         price_change res =
           fmul (fdiv (fsub (close (last fetched)) (close (fetched ! (length fetched - 2))))
                      (close (fetched ! (length fetched - 2)))) (Fin 100) \<and>
         (ma_trend res = ''UP'') = fgt (MA5 (last (calculate_indicators fetched)))
                                      (MA20 (last (calculate_indicators fetched))) \<and>
         (ma_trend res = ''DOWN'') = (\<not> fgt (MA5 (last (calculate_indicators fetched)))
                                           (MA20 (last (calculate_indicators fetched)))) \<and>
         (macd_signal res = ''BUY'') = fgt (MACD (last (calculate_indicators fetched)))
                                          (Signal (last (calculate_indicators fetched))) \<and>
         (macd_signal res = ''SELL'') = (\<not> fgt (MACD (last (calculate_indicators fetched)))
                                              (Signal (last (calculate_indicators fetched)))) \<and>
         (volume_status res = ''HIGH'') =
            fgt (Volume_Ratio (last (calculate_indicators fetched))) (Fin 1.5) \<and>
         (volume_status res = ''NORMAL'') =
            (\<not> fgt (Volume_Ratio (last (calculate_indicators fetched))) (Fin 1.5))"
    using g n report_fields [OF g n ok] by (intro exI [of _ fetched]) simp
next
  fix fetched
  assume "snd (get_stock_data clk ak request) = Inr fetched \<and> 2 \<le> length fetched \<and>
        \<not> list_ex unencodable (take 5 fetched)"
  then show "\<exists>res. snd (analyze_stock clk ak request) = Inr res"
    using analyze_long [of clk ak request fetched] by simp
qed

lemma upt_2: "[0..<2] = [0, Suc 0]"
  by (simp add: upt_rec numeral_2_eq_2)

lemma last_calculate_indicators:
  "df \<noteq> [] \<Longrightarrow> last (calculate_indicators df) = calculate_indicators df ! (length df - 1)"
proof -
  assume "df \<noteq> []"
  then have "calculate_indicators df \<noteq> []"
    using length_calculate_indicators [of df] by auto
  then show ?thesis
    by (simp add: last_conv_nth length_calculate_indicators)
qed

lemma last_bars_two:
  "MA5 (last (calculate_indicators bars_two)) = Fin (31 / 3)"
  "MA20 (last (calculate_indicators bars_two)) = Fin (212 / 21)"
  "MACD (last (calculate_indicators bars_two)) = Fin (28 / 351)"
  "Signal (last (calculate_indicators bars_two)) = Fin (28 / 1755)"
  "Volume_Ratio (last (calculate_indicators bars_two)) = NaN"
  by (simp_all add: last_calculate_indicators nth_calculate_indicators
      bars_two_def mk_bar_def calculate_ema_def ewm_mean_def calculate_macd_def Let_def
      rolling_mean_def upt_2 fsub_def)

theorem analysis_report_fields_witness:
  "snd (get_stock_data clock0 (ak_const raw_two) (mk_request ''600519'' ''A'')) = Inr bars_two \<and>
   2 \<le> length bars_two \<and> \<not> list_ex unencodable (take 5 bars_two) \<and>
   (\<exists>res. snd (analyze_stock clock0 (ak_const raw_two) (mk_request ''600519'' ''A'')) = Inr res \<and>
      price_change res = Fin 10 \<and> ma_trend res = ''UP'' \<and> macd_signal res = ''BUY'' \<and>
      volume_status res = ''NORMAL'')"
proof -
  have a: "snd (get_stock_data clock0 (ak_const raw_two) (mk_request ''600519'' ''A'')) = Inr bars_two"
    by (simp add: get_raw_two bars_two_def)
  have b: "2 \<le> length bars_two" "\<not> list_ex unencodable (take 5 bars_two)"
    by (simp_all add: bars_two_def mk_bar_def)
  have c: "fmul (fdiv (fsub (close (last bars_two)) (close (bars_two ! (length bars_two - 2))))
                  (close (bars_two ! (length bars_two - 2)))) (Fin 100) = Fin 10"
    by (simp add: bars_two_def mk_bar_def fsub_def)
  note th = analysis_report_fields [of clock0 "ak_const raw_two" "mk_request ''600519'' ''A''"]
  from th a b obtain res
    where r: "snd (analyze_stock clock0 (ak_const raw_two) (mk_request ''600519'' ''A'')) = Inr res"
    by blast
  from th r a have "price_change res = Fin 10 \<and> ma_trend res = ''UP'' \<and>
      macd_signal res = ''BUY'' \<and> volume_status res = ''NORMAL''"
    by (auto simp add: c last_bars_two fgt_def)
  then show ?thesis using a b r by blast
qed

section \<open>Properties of the indicators\<close>

lemma nth_series_shift:
  "i < length xs \<Longrightarrow> series_shift n xs ! i = (if i < n then NaN else xs ! (i - n))"
  by (simp add: series_shift_def nth_append)

lemma length_series_shift: "length (series_shift n xs) = length xs"
  by (simp add: series_shift_def)

lemma row_max_first: "row_max [Fin a, NaN, NaN] = Fin a"
  by (simp add: row_max_def fmax_def)

lemma row_max_three: "row_max [Fin a, Fin b, Fin c] = Fin (max a (max b c))"
  by (simp add: row_max_def fmax_def max_def)

lemma is_fin_conv: "is_fin x \<Longrightarrow> x = Fin (fin_val x)"
  by (cases x) simp_all

lemma true_range_series:
  assumes fin: "\<forall>b\<in>set df. is_fin (high b) \<and> is_fin (low b) \<and> is_fin (close b)"
  shows "calculate_atr df period =
           rolling_mean period (map (\<lambda>i. Fin (true_range df i)) [0..<length df])"
proof -
  have cell: "row_max [fsub (high (df ! i)) (low (df ! i)),
                 fabs (fsub (high (df ! i)) (series_shift 1 (map close df) ! i)),
                 fabs (fsub (low (df ! i)) (series_shift 1 (map close df) ! i))]
               = Fin (true_range df i)" if i: "i < length df" for i
  proof -
    obtain h l where hl: "high (df ! i) = Fin h" "low (df ! i) = Fin l"
      using fin i is_fin_conv by (metis nth_mem)
    show ?thesis
    proof (cases "i = 0")
      case True
      then show ?thesis using i hl
        by (simp add: nth_series_shift true_range_def fsub_def row_max_first)
    next
      case False
      then have "i - 1 < length df" using i by simp
      then obtain pc where pc: "close (df ! (i - 1)) = Fin pc"
        using fin is_fin_conv by (metis nth_mem)
      show ?thesis using False i hl pc
        by (simp add: nth_series_shift true_range_def fsub_def row_max_three)
    qed
  qed
  have "map (\<lambda>(a, b, c). row_max [a, b, c])
          (zip (map2 fsub (map high df) (map low df))
             (zip (map fabs (map2 fsub (map high df) (series_shift 1 (map close df))))
                  (map fabs (map2 fsub (map low df) (series_shift 1 (map close df))))))
        = map (\<lambda>i. Fin (true_range df i)) [0..<length df]"
    by (rule nth_equalityI) (simp_all del: One_nat_def add: length_series_shift cell)
  then show ?thesis by (simp add: calculate_atr_def Let_def)
qed

lemma fsum_Fin: "fsum (map Fin rs) = Fin (sum_list rs)"
  by (induction rs) (simp_all add: fsum_def)

lemma window_mean_Fin:
  "rs \<noteq> [] \<Longrightarrow> window_mean (map Fin rs) = Fin (sum_list rs / real (length rs))"
  by (simp add: window_mean_def fsum_Fin list_ex_iff)

lemma window_upt:
  "0 < w \<Longrightarrow> w \<le> t + 1 \<Longrightarrow> t < n \<Longrightarrow>
     window w t (map f [0..<n]) = map f [t + 1 - w..<t + 1]"
  by (simp add: window_def take_map drop_map take_upt)

lemma rolling_mean_Fin:
  assumes "0 < w" "w \<le> t + 1" "t < n"
  shows "rolling_mean w (map (\<lambda>i. Fin (f i)) [0..<n]) ! t
           = Fin (sum_list (map f [t + 1 - w..<t + 1]) / real w)"
proof -
  have "window w t (map (\<lambda>i. Fin (f i)) [0..<n]) = map Fin (map f [t + 1 - w..<t + 1])"
    using window_upt [OF assms, of "\<lambda>i. Fin (f i)"] by simp
  moreover have "map f [t + 1 - w..<t + 1] \<noteq> []" using assms by simp
  moreover have "length (map f [t + 1 - w..<t + 1]) = w" using assms by simp
  ultimately show ?thesis using assms window_mean_Fin [of "map f [t + 1 - w..<t + 1]"]
    by (simp add: rolling_mean_def)
qed

lemma rolling_mean_warmup:
  "t < length xs \<Longrightarrow> t + 1 < w \<Longrightarrow> rolling_mean w xs ! t = NaN"
  by (simp add: rolling_mean_def)

text \<open>
  Claim C7. On a series with finite prices, once the window is full (\<open>period \<le> t + 1\<close>)
  the ATR at row \<open>t\<close> is the plain mean of the true range over the last \<open>period\<close>
  rows, where the true range of a row with a previous row is the largest of high minus
  low, |high - previous close| and |low - previous close|, and the true range of the
  first row is high minus low. The \<open>ATR\<close> column is this with the period of the
  parameters.
\<close>

theorem atr_is_mean_true_range:
  assumes "\<forall>b\<in>set df. is_fin (high b) \<and> is_fin (low b) \<and> is_fin (close b)"
    and "0 < period" and "period \<le> t + 1" and "t < length df"
  shows "calculate_atr df period ! t =
           Fin ((\<Sum>i = t + 1 - period..<t + 1. true_range df i) / real period) \<and>
         true_range df 0 = fin_val (high (df ! 0)) - fin_val (low (df ! 0)) \<and>
         (\<forall>i. 0 < i \<longrightarrow> true_range df i =
            max (fin_val (high (df ! i)) - fin_val (low (df ! i)))
              (max \<bar>fin_val (high (df ! i)) - fin_val (close (df ! (i - 1)))\<bar>
                   \<bar>fin_val (low (df ! i)) - fin_val (close (df ! (i - 1)))\<bar>)) \<and>
         ATR (calculate_indicators df ! t) = calculate_atr df (atr_period params) ! t"
proof -
  have "calculate_atr df period ! t =
          Fin (sum_list (map (true_range df) [t + 1 - period..<t + 1]) / real period)"
    unfolding true_range_series [OF assms(1)] using assms(2-4) by (rule rolling_mean_Fin)
  moreover have "sum_list (map (true_range df) [t + 1 - period..<t + 1])
                   = (\<Sum>i = t + 1 - period..<t + 1. true_range df i)"
    by (simp add: interv_sum_list_conv_sum_set_nat)
  moreover have "ATR (calculate_indicators df ! t) = calculate_atr df (atr_period params) ! t"
    using assms(4) by (simp add: nth_calculate_indicators params_def)
  ultimately show ?thesis by (simp add: true_range_def Let_def)
qed

lemma true_range_bars_three:
  "true_range bars_three 0 = 1" "true_range bars_three (Suc 0) = 3 / 2"
  "true_range bars_three 2 = 3 / 2"
  by (simp_all add: true_range_def bars_three_def mk_bar_def)

theorem atr_is_mean_true_range_witness:
  "calculate_atr bars_three 2 ! 2 = Fin (3 / 2) \<and> true_range bars_three 0 = 1 \<and>
   true_range bars_three 2 = 3 / 2"
proof -
  have h: "\<forall>b\<in>set bars_three. is_fin (high b) \<and> is_fin (low b) \<and> is_fin (close b)"
    by (simp add: bars_three_def mk_bar_def)
  have len: "2 < length bars_three" by (simp add: bars_three_def)
  have p: "(0::nat) < 2" "(2::nat) \<le> 2 + 1" by simp_all
  have "{2 + 1 - 2..<2 + 1} = {Suc 0, 2::nat}" by auto
  then have s: "(\<Sum>i = 2 + 1 - 2..<2 + 1. true_range bars_three i) = 3"
    by (simp add: true_range_bars_three)
  have "calculate_atr bars_three 2 ! 2 =
          Fin ((\<Sum>i = 2 + 1 - 2..<2 + 1. true_range bars_three i) / real 2)"
    using atr_is_mean_true_range [OF h p len] by (rule conjunct1)
  then have "calculate_atr bars_three 2 ! 2 = Fin (3 / 2)"
    by (simp only: s) simp
  then show ?thesis by (simp add: true_range_bars_three)
qed

text \<open>
  On finite cells the moving average of the library is the one the specification words:
  seeded by the first value and smoothed with the factor \<open>2 / (period + 1)\<close>.
\<close>

lemma ewm_from_finite: "ewm_from a (Some w) 1 (map Fin cs) = map Fin (ema_next a w cs)"
  by (induction cs arbitrary: w) (simp_all add: Let_def)

lemma calculate_ema_finite: "calculate_ema (map Fin cs) p = map Fin (ema_spec p cs)"
  by (cases cs) (simp_all add: calculate_ema_def ewm_mean_def ema_spec_def ewm_from_finite)

lemma ema_next_nth:
  "t < length cs \<Longrightarrow>
     ema_next a w cs ! t = (1 - a) * (if t = 0 then w else ema_next a w cs ! (t - 1)) + a * cs ! t"
proof (induction cs arbitrary: w t)
  case Nil
  then show ?case by simp
next
  case (Cons c cs)
  show ?case
  proof (cases t)
    case 0
    then show ?thesis by simp
  next
    case (Suc k)
    then have "k < length cs" using Cons.prems by simp
    then show ?thesis using Suc Cons.IH [of k] by (cases k) simp_all
  qed
qed

lemma length_ema_next: "length (ema_next a w cs) = length cs"
  by (induction cs arbitrary: w) simp_all

lemma length_ema_spec: "length (ema_spec p cs) = length cs"
  by (cases cs) (simp_all add: ema_spec_def length_ema_next)

lemma ema_spec_seed: "cs \<noteq> [] \<Longrightarrow> ema_spec p cs ! 0 = cs ! 0"
  by (cases cs) (simp_all add: ema_spec_def)

lemma ema_spec_step:
  assumes "Suc t < length cs"
  shows "ema_spec p cs ! Suc t =
           (1 - 2 / (real p + 1)) * ema_spec p cs ! t + 2 / (real p + 1) * cs ! Suc t"
proof (cases cs)
  case Nil
  then show ?thesis using assms by simp
next
  case (Cons c cs')
  then have "t < length cs'" using assms by simp
  then show ?thesis using Cons ema_next_nth [of t cs' "2 / (real p + 1)" c]
    by (cases t) (simp_all add: ema_spec_def)
qed

lemma calculate_ema_recurrence:
  "cs \<noteq> [] \<Longrightarrow> calculate_ema (map Fin cs) p ! 0 = Fin (cs ! 0)"
  "Suc t < length cs \<Longrightarrow>
     calculate_ema (map Fin cs) p ! Suc t =
       Fin ((1 - 2 / (real p + 1)) * fin_val (calculate_ema (map Fin cs) p ! t)
            + 2 / (real p + 1) * cs ! Suc t)"
  unfolding calculate_ema_finite
  by (simp_all add: length_ema_spec ema_spec_seed ema_spec_step)

lemma ema_next_flat: "ema_next a c (replicate n c) = replicate n c"
  by (induction n) (simp_all add: algebra_simps)

lemma ewm_mean_flat: "ewm_mean p (replicate n (Fin c)) = replicate n (Fin c)"
proof -
  have "calculate_ema (map Fin (replicate n c)) p = map Fin (ema_spec p (replicate n c))"
    by (rule calculate_ema_finite)
  then show ?thesis
    by (cases n) (simp_all add: calculate_ema_def ema_spec_def ema_next_flat)
qed

lemma map2_replicate:
  "map2 f (replicate n a) (replicate n b) = replicate n (f a b)"
  by (simp add: zip_replicate)

lemma calculate_macd_flat:
  "calculate_macd (replicate n (Fin c)) =
     (replicate n (Fin 0), replicate n (Fin 0), replicate n (Fin 0))"
  by (simp add: calculate_macd_def Let_def ewm_mean_flat map2_replicate fsub_def)

lemma window_replicate:
  "w \<le> t + 1 \<Longrightarrow> t < n \<Longrightarrow> window w t (replicate n x) = replicate w x"
  by (simp add: window_def min_def)

lemma fsum_replicate: "fsum (replicate w (Fin v)) = Fin (real w * v)"
  by (induction w) (simp_all add: fsum_def algebra_simps)

lemma window_mean_replicate: "0 < w \<Longrightarrow> window_mean (replicate w (Fin v)) = Fin v"
  by (simp add: window_mean_def fsum_replicate list_ex_iff)

lemma rolling_mean_flat:
  "0 < w \<Longrightarrow> t < n \<Longrightarrow>
     rolling_mean w (replicate n (Fin v)) ! t = (if t + 1 < w then NaN else Fin v)"
  by (simp add: rolling_mean_def window_replicate window_mean_replicate)

lemma series_diff_flat_cells:
  "d \<in> set (series_diff (replicate n (Fin c))) \<Longrightarrow> d = NaN \<or> d = Fin 0"
proof -
  assume "d \<in> set (series_diff (replicate n (Fin c)))"
  then obtain i where i: "i < n" and d: "d = series_diff (replicate n (Fin c)) ! i"
    by (auto simp: in_set_conv_nth series_diff_def length_series_shift)
  show ?thesis unfolding d using i
    by (simp add: series_diff_def length_series_shift nth_series_shift fsub_def)
qed

lemma length_series_diff: "length (series_diff xs) = length xs"
  by (simp add: series_diff_def length_series_shift)

lemma calculate_rsi_flat:
  assumes "0 < p" "t < n"
  shows "calculate_rsi (replicate n (Fin c)) p ! t = NaN"
proof -
  let ?delta = "series_diff (replicate n (Fin c))"
  have g: "map (\<lambda>d. if fgt d (Fin 0) then d else Fin 0) ?delta = replicate n (Fin 0)"
  proof -
    have "map (\<lambda>d. if fgt d (Fin 0) then d else Fin 0) ?delta = map (\<lambda>d. Fin 0) ?delta"
      by (rule map_cong) (auto simp: fgt_def dest: series_diff_flat_cells)
    then show ?thesis by (simp add: map_replicate_const length_series_diff)
  qed
  have l: "map fneg (map (\<lambda>d. if flt d (Fin 0) then d else Fin 0) ?delta) = replicate n (Fin 0)"
  proof -
    have "map (\<lambda>d. if flt d (Fin 0) then d else Fin 0) ?delta = map (\<lambda>d. Fin 0) ?delta"
      by (rule map_cong) (auto dest: series_diff_flat_cells)
    then show ?thesis by (simp add: map_replicate_const length_series_diff)
  qed
  have "calculate_rsi (replicate n (Fin c)) p =
          map (\<lambda>r. fsub (Fin 100) (fdiv (Fin 100) (fadd (Fin 1) r)))
            (map2 fdiv (rolling_mean p (replicate n (Fin 0))) (rolling_mean p (replicate n (Fin 0))))"
    by (simp only: calculate_rsi_def Let_def g l)
  then show ?thesis using assms
    by (simp add: length_rolling_mean rolling_mean_flat fsub_def)
qed

lemma flat_columns:
  assumes "\<forall>b\<in>set df. close b = Fin c \<and> volume b = Fin v"
  shows "map close df = replicate (length df) (Fin c)"
    and "map volume df = replicate (length df) (Fin v)"
proof -
  have "map close df = map (\<lambda>b. Fin c) df" using assms by (intro map_cong) auto
  then show "map close df = replicate (length df) (Fin c)" by (simp add: map_replicate_const)
  have "map volume df = map (\<lambda>b. Fin v) df" using assms by (intro map_cong) auto
  then show "map volume df = replicate (length df) (Fin v)" by (simp add: map_replicate_const)
qed

lemma flat_series_indicators:
  assumes flat: "\<forall>b\<in>set df. close b = Fin c \<and> volume b = Fin v" and i: "i < length df"
  shows "close (calculate_indicators df ! i) = Fin c"
    and "MA5 (calculate_indicators df ! i) = Fin c"
    and "MA20 (calculate_indicators df ! i) = Fin c"
    and "MA60 (calculate_indicators df ! i) = Fin c"
    and "MACD (calculate_indicators df ! i) = Fin 0"
    and "Signal (calculate_indicators df ! i) = Fin 0"
    and "RSI (calculate_indicators df ! i) = NaN"
    and "Volume_MA (calculate_indicators df ! i) = (if i < 19 then NaN else Fin v)"
    and "Volume_Ratio (calculate_indicators df ! i) =
           (if i < 19 then NaN else if v = 0 then NaN else Fin 1)"
  using i flat
  by (simp_all add: nth_calculate_indicators flat_columns [OF flat] calculate_ema_def
      ewm_mean_flat calculate_macd_flat calculate_rsi_flat rolling_mean_flat)

lemma flat_bars_flat: "\<forall>b\<in>set (flat_bars v). close b = Fin 10 \<and> volume b = Fin v"
  by (simp add: flat_bars_def mk_bar_def)

lemma length_flat_bars: "length (flat_bars v) = 20"
  by (simp add: flat_bars_def)

text \<open>
  Claim C8, as stated, fails: on 20 rows with constant close 10 and constant volume 0
  the volume moving average of the last row is defined (it is 0) and the volume ratio
  there is 0 / 0, which is NaN and not 1.
\<close>

theorem flat_zero_volume_counterexample:
  "list_all (\<lambda>b. close b = Fin 10 \<and> volume b = Fin 0) (flat_bars 0) \<and>
   Volume_MA (calculate_indicators (flat_bars 0) ! 19) = Fin 0 \<and>
   Volume_Ratio (calculate_indicators (flat_bars 0) ! 19) = NaN"
proof -
  have len: "19 < length (flat_bars 0)" by (simp add: length_flat_bars)
  have a: "list_all (\<lambda>b. close b = Fin 10 \<and> volume b = Fin 0) (flat_bars 0)"
    using flat_bars_flat [of 0] by (simp add: list_all_iff)
  show ?thesis
    using a flat_series_indicators(8,9) [OF flat_bars_flat len] by simp
qed

text \<open>
  Claim C8, amended. On a series with constant finite close \<open>c\<close> and constant finite
  volume \<open>v\<close>, at every row MA5, MA20 and MA60 equal the close, MACD is 0 and RSI is NaN
  (nothing is raised); the volume moving average is defined from the 20th row on, and
  where it is defined the volume ratio is 1 when \<open>v\<close> is not 0 and NaN when it is.
\<close>

theorem flat_series:
  assumes "\<forall>b\<in>set df. close b = Fin c \<and> volume b = Fin v" and "i < length df"
  shows "close (calculate_indicators df ! i) = Fin c \<and>
         MA5 (calculate_indicators df ! i) = Fin c \<and>
         MA20 (calculate_indicators df ! i) = Fin c \<and>
         MA60 (calculate_indicators df ! i) = Fin c \<and>
         MACD (calculate_indicators df ! i) = Fin 0 \<and>
         RSI (calculate_indicators df ! i) = NaN \<and>
         is_nan (Volume_MA (calculate_indicators df ! i)) = (i < 19) \<and>
         (\<not> is_nan (Volume_MA (calculate_indicators df ! i)) \<and> v \<noteq> 0 \<longrightarrow>
            Volume_Ratio (calculate_indicators df ! i) = Fin 1) \<and>
         (\<not> is_nan (Volume_MA (calculate_indicators df ! i)) \<and> v = 0 \<longrightarrow>
            Volume_Ratio (calculate_indicators df ! i) = NaN)"
  using flat_series_indicators [OF assms] by simp

theorem flat_series_witness:
  "close (calculate_indicators (flat_bars 1000) ! 19) = Fin 10 \<and>
   MA5 (calculate_indicators (flat_bars 1000) ! 19) = Fin 10 \<and>
   MA20 (calculate_indicators (flat_bars 1000) ! 19) = Fin 10 \<and>
   MA60 (calculate_indicators (flat_bars 1000) ! 19) = Fin 10 \<and>
   MACD (calculate_indicators (flat_bars 1000) ! 19) = Fin 0 \<and>
   RSI (calculate_indicators (flat_bars 1000) ! 19) = NaN \<and>
   \<not> is_nan (Volume_MA (calculate_indicators (flat_bars 1000) ! 19)) \<and>
   Volume_Ratio (calculate_indicators (flat_bars 1000) ! 19) = Fin 1"
proof -
  have len: "19 < length (flat_bars 1000)" by (simp add: length_flat_bars)
  show ?thesis using flat_series [OF flat_bars_flat len] by simp
qed

end
